theory Spec2Isabelle
  imports Main
begin

section \<open>The flashcard tracker's data model (app/models.py)\<close>

text \<open>
  The module declares four mapped classes (User, Deck, Card, Class), two association
  tables (UserClasses, CardClasses) and the login callback \<open>load_user\<close>. Its code is
  declarative: columns, relationships, constructors that assign attributes, a password
  property and one query helper. The embedding keeps that shape:
  \<^item> a column declaration \<open>db.Column(type, ...)\<close> is a value of the record \<open>column\<close>;
  \<^item> an instance of a mapped class is a record of its column attributes; a value of a
    column that Python leaves \<open>None\<close> and SQL stores as NULL is \<open>None\<close>;
  \<^item> the database is a record \<open>store\<close> of the rows of the six tables;
  \<^item> persisting an object (\<open>db.session.add\<close> and \<open>commit\<close>) is a function from a store
    to a store and a result, \<open>Inl\<close> an error; the constraints it checks are the ones the
    column declarations carry;
  \<^item> a relationship attribute is the query the ORM runs for it, a function of the store.
  The functions of \<open>werkzeug.security\<close> are not part of the repository; the methods that
  call them take them as arguments.
\<close>

subsection \<open>Errors\<close>

datatype error =
    AttributeError string
  | ValueError
  | IntegrityError
  | DataError

subsection \<open>Column and table declarations\<close>

datatype coltype = Integer | String nat

record column =
  cname :: string
  ctype :: coltype
  primary_key :: bool
  unique :: bool
  foreign_key :: "string option"

text \<open>\<open>db.Column(type)\<close> with no further argument: no key, no uniqueness, nullable.\<close>

definition Column :: "string \<Rightarrow> coltype \<Rightarrow> column" where
  "Column n t =
     \<lparr>cname = n, ctype = t, primary_key = False, unique = False, foreign_key = None\<rparr>"

text \<open>\<open>db.Column(type, db.ForeignKey(target))\<close>.\<close>

definition ForeignKey :: "string \<Rightarrow> coltype \<Rightarrow> string \<Rightarrow> column" where
  "ForeignKey n t target = (Column n t)\<lparr>foreign_key := Some target\<rparr>"

record table =
  tname :: string
  columns :: "column list"

text \<open>
  The two association tables. In the source the comma that should follow the name of
  the second table stands inside the string literal; the table is read with the name the
  literal has and the two columns that follow it.
\<close>

definition UserClasses :: table where
  "UserClasses =
     \<lparr>tname = ''UserClasses'',
      columns = [ForeignKey ''user_id'' Integer ''user.id'',
                 ForeignKey ''class_id'' Integer ''class.id'']\<rparr>"

definition CardClasses :: table where
  "CardClasses =
     \<lparr>tname = ''CardClasses,'',
      columns = [ForeignKey ''card_id'' Integer ''card.id'',
                 ForeignKey ''class_id'' Integer ''class.id'']\<rparr>"

text \<open>The columns of the class User.\<close>

definition User_id :: column where
  "User_id = (Column ''id'' Integer)\<lparr>primary_key := True\<rparr>"

definition User_first_name :: column where
  "User_first_name = Column ''first_name'' (String 30)"

definition User_last_name :: column where
  "User_last_name = Column ''last_name'' (String 30)"

definition User_email :: column where
  "User_email = (Column ''email'' (String 40))\<lparr>unique := True\<rparr>"

definition User_password_hash :: column where
  "User_password_hash = Column ''password_hash'' (String 128)"

text \<open>The columns of the class Deck.\<close>

definition Deck_id :: column where
  "Deck_id = (Column ''id'' Integer)\<lparr>primary_key := True\<rparr>"

definition Deck_name :: column where
  "Deck_name = (Column ''name'' (String 30))\<lparr>unique := True\<rparr>"

definition Deck_owner_id :: column where
  "Deck_owner_id = ForeignKey ''owner_id'' Integer ''user.id''"

text \<open>The columns of the class Card.\<close>

definition Card_id :: column where
  "Card_id = (Column ''id'' Integer)\<lparr>primary_key := True\<rparr>"

definition Card_front :: column where
  "Card_front = Column ''front'' (String 1200)"

definition Card_back :: column where
  "Card_back = Column ''back'' (String 1200)"

definition Card_deck_id :: column where
  "Card_deck_id = ForeignKey ''deck_id'' Integer ''deck.id''"

definition Card_owner_id :: column where
  "Card_owner_id = ForeignKey ''owner_id'' Integer ''user.id''"

text \<open>The columns of the class Class.\<close>

definition Class_id :: column where
  "Class_id = (Column ''id'' Integer)\<lparr>primary_key := True\<rparr>"

definition Class_name :: column where
  "Class_name = (Column ''name'' (String 30))\<lparr>unique := True\<rparr>"

definition Class_password_hash :: column where
  "Class_password_hash = Column ''password_hash'' (String 128)"

definition Class_owner_id :: column where
  "Class_owner_id = ForeignKey ''owner_id'' Integer ''user.id''"

subsection \<open>Instances of the mapped classes\<close>

text \<open>
  One record for each class, with the column attributes under the names of the source.
  \<open>id\<close> is \<open>None\<close> until the object is persisted. The attribute \<open>back\<close> of Card and the
  class name Class are reserved words of Isabelle and carry a suffix; an argument of a
  constructor that has the name of an attribute is written with a prime.
\<close>

record user =
  id :: "int option"
  first_name :: "string option"
  last_name :: "string option"
  email :: "string option"
  password_hash :: "string option"

record deck =
  id :: "int option"
  name :: "string option"
  owner_id :: "int option"

record card =
  id :: "int option"
  front :: "string option"
  back_text :: "string option"
  deck_id :: "int option"
  owner_id :: "int option"

record class_rec =
  id :: "int option"
  name :: "string option"
  password_hash :: "string option"
  owner_id :: "int option"

text \<open>
  The constructors. \<open>owner\<close> and \<open>deck\<close> are the many-to-one sides of the relationships
  \<open>User.decks\<close>, \<open>User.cards\<close>, \<open>User.classes\<close> and \<open>Deck.cards\<close> (their \<open>backref\<close>):
  assigning an object to one of them sets the foreign key column to that object's \<open>id\<close>.
  The object assigned is one that has been persisted, or \<open>None\<close>.
\<close>

definition User_init ::
  "string option \<Rightarrow> string option \<Rightarrow> string option \<Rightarrow> string option \<Rightarrow> user" where
  "User_init first_name' last_name' email' password_hash' =
     \<lparr>user.id = None, first_name = first_name', last_name = last_name', email = email',
      user.password_hash = password_hash'\<rparr>"

definition Deck_init :: "string option \<Rightarrow> user option \<Rightarrow> deck" where
  "Deck_init name' owner =
     \<lparr>deck.id = None, deck.name = name', deck.owner_id = Option.bind owner user.id\<rparr>"

definition Card_init ::
  "string option \<Rightarrow> string option \<Rightarrow> deck option \<Rightarrow> user option \<Rightarrow> card" where
  "Card_init front' back' deck owner =
     \<lparr>card.id = None, front = front', back_text = back',
      deck_id = Option.bind deck deck.id, card.owner_id = Option.bind owner user.id\<rparr>"

definition Class_init :: "string option \<Rightarrow> string option \<Rightarrow> user option \<Rightarrow> class_rec" where
  "Class_init name' password_hash' owner =
     \<lparr>class_rec.id = None, class_rec.name = name',
      class_rec.password_hash = password_hash',
      class_rec.owner_id = Option.bind owner user.id\<rparr>"

subsection \<open>The password property of User\<close>

text \<open>
  Reading \<open>password\<close> raises; assigning it stores \<open>generate_password_hash(password)\<close>;
  \<open>verify_password\<close> returns \<open>check_password_hash(self.password_hash, password)\<close>. The
  two functions of werkzeug are the arguments \<open>gph\<close> and \<open>cph\<close>; \<open>cph\<close> may raise.
\<close>

definition password_get :: "user \<Rightarrow> error + string" where
  "password_get self = Inl (AttributeError ''password is not a readable attribute.'')"

definition password_set :: "(string \<Rightarrow> string) \<Rightarrow> user \<Rightarrow> string \<Rightarrow> user" where
  "password_set gph self password = self\<lparr>user.password_hash := Some (gph password)\<rparr>"


subsection \<open>The store\<close>

type_synonym link = "int option \<times> int option"

record store =
  user_rows :: "user list"
  deck_rows :: "deck list"
  card_rows :: "card list"
  class_rows :: "class_rec list"
  UserClasses_rows :: "link list"
  CardClasses_rows :: "link list"

definition empty_store :: store where
  "empty_store =
     \<lparr>user_rows = [], deck_rows = [], card_rows = [], class_rows = [],
      UserClasses_rows = [], CardClasses_rows = []\<rparr>"

subsection \<open>Deck.list\_cards\<close>

text \<open>
  \<open>Card.query.filter_by(owner_id=an_owner_id).all()\<close>: the rows of the card table whose
  \<open>owner_id\<close> is the argument (\<open>None\<close> selects the rows where it is NULL). \<open>self\<close> is
  not used.
\<close>

definition list_cards :: "store \<Rightarrow> deck \<Rightarrow> int option \<Rightarrow> card list" where
  "list_cards st self an_owner_id =
     filter (\<lambda>c. card.owner_id c = an_owner_id) (card_rows st)"

subsection \<open>The storage layer\<close>

text \<open>
  The application is configured for MySQL. What the server does with the declarations:
  \<^item> \<open>String(n)\<close> is \<open>VARCHAR(n)\<close>. A longer value is rejected when the server runs in
    strict mode and cut to its first \<open>n\<close> characters otherwise; the mode is a setting
    of the server, so it is an argument here. NULL is stored as it is.
  \<^item> \<open>primary_key=True\<close> on an integer column: a row inserted without an \<open>id\<close> gets
    the next one; an \<open>id\<close> that is given must not be stored yet.
  \<^item> \<open>unique=True\<close>: a value that is not NULL must not be stored yet in that column.
    Values are compared by equality (a collation that identifies more strings only
    adds failures).
  \<^item> a foreign key is stored as given.
  Every failure leaves the store as it was (the transaction is rolled back).
\<close>

datatype sql_mode = Strict | Lenient

definition fits :: "column \<Rightarrow> string option \<Rightarrow> bool" where
  "fits c v =
     (case ctype c of
        Integer \<Rightarrow> True
      | String n \<Rightarrow> (case v of None \<Rightarrow> True | Some s \<Rightarrow> length s \<le> n))"

definition store_value :: "sql_mode \<Rightarrow> column \<Rightarrow> string option \<Rightarrow> error + string option" where
  "store_value m c v =
     (if fits c v then Inr v
      else case m of
             Strict \<Rightarrow> Inl DataError
           | Lenient \<Rightarrow>
               Inr (case ctype c of Integer \<Rightarrow> v | String n \<Rightarrow> map_option (take n) v))"

definition unique_violation :: "column \<Rightarrow> 'a option \<Rightarrow> 'a option list \<Rightarrow> bool" where
  "unique_violation c v stored = ((unique c \<or> primary_key c) \<and> v \<noteq> None \<and> v \<in> set stored)"

definition next_id :: "int option list \<Rightarrow> int" where
  "next_id ids = 1 + fold (\<lambda>v m. case v of None \<Rightarrow> m | Some i \<Rightarrow> max i m) ids 0"

definition assign_id :: "column \<Rightarrow> int option \<Rightarrow> int option list \<Rightarrow> error + int option" where
  "assign_id c v ids =
     (if primary_key c \<and> v = None then Inr (Some (next_id ids))
      else if unique_violation c v ids then Inl IntegrityError
      else Inr v)"

text \<open>The row that the INSERT of an object writes, or the error it fails with.\<close>

definition user_row :: "sql_mode \<Rightarrow> user list \<Rightarrow> user \<Rightarrow> error + user" where
  "user_row m rows u =
     (case store_value m User_first_name (first_name u) of Inl e \<Rightarrow> Inl e | Inr fn \<Rightarrow>
     (case store_value m User_last_name (last_name u) of Inl e \<Rightarrow> Inl e | Inr ln \<Rightarrow>
     (case store_value m User_email (email u) of Inl e \<Rightarrow> Inl e | Inr em \<Rightarrow>
     (case store_value m User_password_hash (user.password_hash u) of Inl e \<Rightarrow> Inl e | Inr ph \<Rightarrow>
     (case assign_id User_id (user.id u) (map user.id rows) of Inl e \<Rightarrow> Inl e | Inr i \<Rightarrow>
        if unique_violation User_email em (map email rows) then Inl IntegrityError
        else Inr \<lparr>user.id = i, first_name = fn, last_name = ln, email = em,
                  user.password_hash = ph\<rparr>)))))"

definition deck_row :: "sql_mode \<Rightarrow> deck list \<Rightarrow> deck \<Rightarrow> error + deck" where
  "deck_row m rows d =
     (case store_value m Deck_name (deck.name d) of Inl e \<Rightarrow> Inl e | Inr nm \<Rightarrow>
     (case assign_id Deck_id (deck.id d) (map deck.id rows) of Inl e \<Rightarrow> Inl e | Inr i \<Rightarrow>
        if unique_violation Deck_name nm (map deck.name rows) then Inl IntegrityError
        else Inr \<lparr>deck.id = i, deck.name = nm, deck.owner_id = deck.owner_id d\<rparr>))"

definition card_row :: "sql_mode \<Rightarrow> card list \<Rightarrow> card \<Rightarrow> error + card" where
  "card_row m rows c =
     (case store_value m Card_front (front c) of Inl e \<Rightarrow> Inl e | Inr f \<Rightarrow>
     (case store_value m Card_back (back_text c) of Inl e \<Rightarrow> Inl e | Inr b \<Rightarrow>
     (case assign_id Card_id (card.id c) (map card.id rows) of Inl e \<Rightarrow> Inl e | Inr i \<Rightarrow>
        Inr \<lparr>card.id = i, front = f, back_text = b, deck_id = deck_id c,
             card.owner_id = card.owner_id c\<rparr>)))"

definition class_row :: "sql_mode \<Rightarrow> class_rec list \<Rightarrow> class_rec \<Rightarrow> error + class_rec" where
  "class_row m rows k =
     (case store_value m Class_name (class_rec.name k) of Inl e \<Rightarrow> Inl e | Inr nm \<Rightarrow>
     (case store_value m Class_password_hash (class_rec.password_hash k) of
        Inl e \<Rightarrow> Inl e | Inr ph \<Rightarrow>
     (case assign_id Class_id (class_rec.id k) (map class_rec.id rows) of
        Inl e \<Rightarrow> Inl e | Inr i \<Rightarrow>
        if unique_violation Class_name nm (map class_rec.name rows) then Inl IntegrityError
        else Inr \<lparr>class_rec.id = i, class_rec.name = nm, class_rec.password_hash = ph,
                  class_rec.owner_id = class_rec.owner_id k\<rparr>)))"

text \<open>
  Persisting a new object: \<open>db.session.add(obj)\<close> and \<open>db.session.commit()\<close>. The result
  is the store afterwards and the persisted object, or the store unchanged and the error.
\<close>

definition add_user :: "sql_mode \<Rightarrow> store \<Rightarrow> user \<Rightarrow> store \<times> (error + user)" where
  "add_user m st u =
     (case user_row m (user_rows st) u of
        Inl e \<Rightarrow> (st, Inl e)
      | Inr r \<Rightarrow> (st\<lparr>user_rows := user_rows st @ [r]\<rparr>, Inr r))"

definition add_deck :: "sql_mode \<Rightarrow> store \<Rightarrow> deck \<Rightarrow> store \<times> (error + deck)" where
  "add_deck m st d =
     (case deck_row m (deck_rows st) d of
        Inl e \<Rightarrow> (st, Inl e)
      | Inr r \<Rightarrow> (st\<lparr>deck_rows := deck_rows st @ [r]\<rparr>, Inr r))"

definition add_card :: "sql_mode \<Rightarrow> store \<Rightarrow> card \<Rightarrow> store \<times> (error + card)" where
  "add_card m st c =
     (case card_row m (card_rows st) c of
        Inl e \<Rightarrow> (st, Inl e)
      | Inr r \<Rightarrow> (st\<lparr>card_rows := card_rows st @ [r]\<rparr>, Inr r))"

definition add_class :: "sql_mode \<Rightarrow> store \<Rightarrow> class_rec \<Rightarrow> store \<times> (error + class_rec)" where
  "add_class m st k =
     (case class_row m (class_rows st) k of
        Inl e \<Rightarrow> (st, Inl e)
      | Inr r \<Rightarrow> (st\<lparr>class_rows := class_rows st @ [r]\<rparr>, Inr r))"

text \<open>
  Assigning to the fields of a persisted card and committing: the UPDATE of the row
  with the card's \<open>id\<close>. The assignment itself is the record update of the object.
\<close>

definition update_card :: "sql_mode \<Rightarrow> store \<Rightarrow> card \<Rightarrow> store \<times> (error + card)" where
  "update_card m st c =
     (case store_value m Card_front (front c) of Inl e \<Rightarrow> (st, Inl e) | Inr f \<Rightarrow>
     (case store_value m Card_back (back_text c) of Inl e \<Rightarrow> (st, Inl e) | Inr b \<Rightarrow>
        (st\<lparr>card_rows :=
              map (\<lambda>r. if card.id c \<noteq> None \<and> card.id r = card.id c
                        then c\<lparr>front := f, back_text := b\<rparr> else r)
                (card_rows st)\<rparr>,
         Inr (c\<lparr>front := f, back_text := b\<rparr>))))"

subsection \<open>One-to-many relationships\<close>

text \<open>
  \<open>db.relationship('Card', backref='owner')\<close> on User, and its like: the collection of an
  object is the rows of the other table whose foreign key is the object's \<open>id\<close>.
\<close>

definition related :: "('a \<Rightarrow> int option) \<Rightarrow> int option \<Rightarrow> 'a list \<Rightarrow> 'a list" where
  "related fk pk rows = (case pk of None \<Rightarrow> [] | Some i \<Rightarrow> filter (\<lambda>r. fk r = Some i) rows)"

definition User_decks :: "store \<Rightarrow> user \<Rightarrow> deck list" where
  "User_decks st self = related deck.owner_id (user.id self) (deck_rows st)"

definition User_cards :: "store \<Rightarrow> user \<Rightarrow> card list" where
  "User_cards st self = related card.owner_id (user.id self) (card_rows st)"

definition User_classes :: "store \<Rightarrow> user \<Rightarrow> class_rec list" where
  "User_classes st self = related class_rec.owner_id (user.id self) (class_rows st)"

definition Deck_cards :: "store \<Rightarrow> deck \<Rightarrow> card list" where
  "Deck_cards st self = related deck_id (deck.id self) (card_rows st)"

subsection \<open>Many-to-many relationships\<close>

text \<open>
  A row of an association table is the pair of its two foreign keys. Inserting one
  checks the constraints that the table's columns declare.
\<close>

definition assoc_violation :: "table \<Rightarrow> link list \<Rightarrow> link \<Rightarrow> bool" where
  "assoc_violation t rows r =
     (case columns t of
        [c1, c2] \<Rightarrow>
          unique_violation c1 (fst r) (map fst rows) \<or> unique_violation c2 (snd r) (map snd rows)
      | _ \<Rightarrow> False)"

definition assoc_insert :: "table \<Rightarrow> link list \<Rightarrow> link \<Rightarrow> error + link list" where
  "assoc_insert t rows r =
     (if assoc_violation t rows r then Inl IntegrityError else Inr (rows @ [r]))"

text \<open>
  \<open>User.user_classes\<close> (secondary \<open>UserClasses\<close>, backref \<open>classes\<close> on Class): the classes a
  user has joined, and the members of a class.
\<close>

definition user_classes :: "store \<Rightarrow> user \<Rightarrow> class_rec list" where
  "user_classes st self =
     concat (map (\<lambda>r. if fst r \<noteq> None \<and> fst r = user.id self
                        then filter (\<lambda>k. class_rec.id k \<noteq> None \<and> class_rec.id k = snd r)
                               (class_rows st)
                        else [])
               (UserClasses_rows st))"

definition Class_classes :: "store \<Rightarrow> class_rec \<Rightarrow> user list" where
  "Class_classes st self =
     concat (map (\<lambda>r. if snd r \<noteq> None \<and> snd r = class_rec.id self
                        then filter (\<lambda>u. user.id u \<noteq> None \<and> user.id u = fst r) (user_rows st)
                        else [])
               (UserClasses_rows st))"

text \<open>
  \<open>Class.card_classes\<close> (secondary \<open>CardClasses\<close>, backref \<open>cards\<close> on Card): the cards
  shared into a class, and the classes a card is shared into.
\<close>

definition card_classes :: "store \<Rightarrow> class_rec \<Rightarrow> card list" where
  "card_classes st self =
     concat (map (\<lambda>r. if snd r \<noteq> None \<and> snd r = class_rec.id self
                        then filter (\<lambda>c. card.id c \<noteq> None \<and> card.id c = fst r) (card_rows st)
                        else [])
               (CardClasses_rows st))"

definition Card_cards :: "store \<Rightarrow> card \<Rightarrow> class_rec list" where
  "Card_cards st self =
     concat (map (\<lambda>r. if fst r \<noteq> None \<and> fst r = card.id self
                        then filter (\<lambda>k. class_rec.id k \<noteq> None \<and> class_rec.id k = snd r)
                               (class_rows st)
                        else [])
               (CardClasses_rows st))"

text \<open>
  Appending to and removing from the two collections of a class, committed:
  \<open>k.classes.append(u)\<close>, \<open>k.classes.remove(u)\<close>, \<open>k.card_classes.append(c)\<close>,
  \<open>k.card_classes.remove(c)\<close>. Appending inserts the link; removing an object that is
  not in the collection raises as \<open>list.remove\<close> does, and otherwise deletes the rows
  of the link.
\<close>

definition classes_append :: "store \<Rightarrow> class_rec \<Rightarrow> user \<Rightarrow> store \<times> (error + unit)" where
  "classes_append st k u =
     (case assoc_insert UserClasses (UserClasses_rows st) (user.id u, class_rec.id k) of
        Inl e \<Rightarrow> (st, Inl e)
      | Inr rows \<Rightarrow> (st\<lparr>UserClasses_rows := rows\<rparr>, Inr ()))"

definition classes_remove :: "store \<Rightarrow> class_rec \<Rightarrow> user \<Rightarrow> store \<times> (error + unit)" where
  "classes_remove st k u =
     (if (user.id u, class_rec.id k) \<in> set (UserClasses_rows st)
      then (st\<lparr>UserClasses_rows :=
                 removeAll (user.id u, class_rec.id k) (UserClasses_rows st)\<rparr>, Inr ())
      else (st, Inl ValueError))"

definition card_classes_append :: "store \<Rightarrow> class_rec \<Rightarrow> card \<Rightarrow> store \<times> (error + unit)" where
  "card_classes_append st k c =
     (case assoc_insert CardClasses (CardClasses_rows st) (card.id c, class_rec.id k) of
        Inl e \<Rightarrow> (st, Inl e)
      | Inr rows \<Rightarrow> (st\<lparr>CardClasses_rows := rows\<rparr>, Inr ()))"

definition card_classes_remove :: "store \<Rightarrow> class_rec \<Rightarrow> card \<Rightarrow> store \<times> (error + unit)" where
  "card_classes_remove st k c =
     (if (card.id c, class_rec.id k) \<in> set (CardClasses_rows st)
      then (st\<lparr>CardClasses_rows :=
                 removeAll (card.id c, class_rec.id k) (CardClasses_rows st)\<rparr>, Inr ())
      else (st, Inl ValueError))"

subsection \<open>load\_user\<close>

text \<open>
  \<open>int(user_id)\<close> on a string: surrounding whitespace is dropped (the characters 9 to
  13 and 32, and the spaces 133 and 160 beyond ASCII; the separators 28 to 31 are not
  whitespace for \<open>int\<close>); an optional sign is followed by decimal digits, with single
  underscores allowed between digits; anything else raises ValueError.
\<close>

definition is_space :: "char \<Rightarrow> bool" where
  "is_space c = ((of_char c :: nat) \<in> set [9, 10, 11, 12, 13, 32, 133, 160])"

definition strip :: "string \<Rightarrow> string" where
  "strip s = rev (dropWhile is_space (rev (dropWhile is_space s)))"

definition digit_of :: "char \<Rightarrow> nat option" where
  "digit_of c =
     (if 48 \<le> (of_char c :: nat) \<and> (of_char c :: nat) \<le> 57 then Some (of_char c - 48) else None)"

fun digits :: "bool \<Rightarrow> nat \<Rightarrow> string \<Rightarrow> nat option" where
  "digits prev acc [] = (if prev then Some acc else None)"
| "digits prev acc (c # cs) =
     (case digit_of c of
        Some d \<Rightarrow> digits True (acc * 10 + d) cs
      | None \<Rightarrow>
          if c = CHR ''_'' \<and> prev \<and> (case cs of [] \<Rightarrow> False | c' # _ \<Rightarrow> digit_of c' \<noteq> None)
          then digits False acc cs
          else None)"

definition py_int :: "string \<Rightarrow> error + int" where
  "py_int s =
     (case strip s of
        [] \<Rightarrow> Inl ValueError
      | c # cs \<Rightarrow>
          if c = CHR ''-'' then
            (case digits False 0 cs of None \<Rightarrow> Inl ValueError | Some n \<Rightarrow> Inr (- int n))
          else if c = CHR ''+'' then
            (case digits False 0 cs of None \<Rightarrow> Inl ValueError | Some n \<Rightarrow> Inr (int n))
          else
            (case digits False 0 (c # cs) of None \<Rightarrow> Inl ValueError | Some n \<Rightarrow> Inr (int n)))"

text \<open>\<open>User.query.get(pk)\<close>: the row with that primary key, or \<open>None\<close>.\<close>

definition query_get :: "store \<Rightarrow> int \<Rightarrow> user option" where
  "query_get st pk = find (\<lambda>u. user.id u = Some pk) (user_rows st)"

definition load_user :: "store \<Rightarrow> string \<Rightarrow> error + user option" where
  "load_user st user_id =
     (case py_int user_id of Inl e \<Rightarrow> Inl e | Inr n \<Rightarrow> Inr (query_get st n))"

subsection \<open>Stored strings fit their columns\<close>

text \<open>
  The rows of a table fit when each of their strings is within the length its column
  declares. Every insert and update keeps this, in both modes of the server.
\<close>

definition user_fits :: "user \<Rightarrow> bool" where
  "user_fits r =
     (fits User_first_name (first_name r) \<and> fits User_last_name (last_name r)
      \<and> fits User_email (email r) \<and> fits User_password_hash (user.password_hash r))"

definition deck_fits :: "deck \<Rightarrow> bool" where
  "deck_fits r = fits Deck_name (deck.name r)"

definition card_fits :: "card \<Rightarrow> bool" where
  "card_fits r = (fits Card_front (front r) \<and> fits Card_back (back_text r))"

definition class_fits :: "class_rec \<Rightarrow> bool" where
  "class_fits r =
     (fits Class_name (class_rec.name r)
      \<and> fits Class_password_hash (class_rec.password_hash r))"

definition users_fit :: "store \<Rightarrow> bool" where
  "users_fit st = list_all user_fits (user_rows st)"

definition decks_fit :: "store \<Rightarrow> bool" where
  "decks_fit st = list_all deck_fits (deck_rows st)"

definition cards_fit :: "store \<Rightarrow> bool" where
  "cards_fit st = list_all card_fits (card_rows st)"

definition classes_fit :: "store \<Rightarrow> bool" where
  "classes_fit st = list_all class_fits (class_rows st)"

subsection \<open>An example store\<close>

text \<open>
  A user, a deck and a class of that user, a card of the deck, and the user a member of
  the class.
\<close>

definition ex_user :: user where
  "ex_user = \<lparr>user.id = Some 1, first_name = Some ''Ann'', last_name = Some ''Lee'',
      email = Some ''a@x.com'', user.password_hash = Some ''h''\<rparr>"

definition ex_deck :: deck where
  "ex_deck = \<lparr>deck.id = Some 1, deck.name = Some ''Spanish'', deck.owner_id = Some 1\<rparr>"

definition ex_card :: card where
  "ex_card = \<lparr>card.id = Some 1, front = Some ''hola'', back_text = Some ''hello'',
      deck_id = Some 1, card.owner_id = Some 1\<rparr>"

definition ex_class :: class_rec where
  "ex_class = \<lparr>class_rec.id = Some 1, class_rec.name = Some ''Period1'',
      class_rec.password_hash = Some ''kh'', class_rec.owner_id = Some 1\<rparr>"

definition ex_store :: store where
  "ex_store = \<lparr>user_rows = [ex_user], deck_rows = [ex_deck], card_rows = [ex_card],
      class_rows = [ex_class], UserClasses_rows = [(Some 1, Some 1)], CardClasses_rows = []\<rparr>"

section \<open>Properties\<close>

subsection \<open>The storage layer\<close>

lemmas column_defs =
  Column_def ForeignKey_def User_id_def User_first_name_def User_last_name_def User_email_def
  User_password_hash_def Deck_id_def Deck_name_def Deck_owner_id_def Card_id_def Card_front_def
  Card_back_def Card_deck_id_def Card_owner_id_def Class_id_def Class_name_def
  Class_password_hash_def Class_owner_id_def

lemmas insert_defs =
  add_user_def user_row_def add_deck_def deck_row_def add_card_def card_row_def
  add_class_def class_row_def store_value_def fits_def assign_id_def next_id_def
  unique_violation_def empty_store_def User_init_def Deck_init_def Card_init_def
  Class_init_def

lemmas link_defs =
  classes_append_def classes_remove_def card_classes_append_def card_classes_remove_def
  assoc_insert_def assoc_violation_def UserClasses_def CardClasses_def unique_violation_def

lemmas ex_defs = ex_user_def ex_deck_def ex_card_def ex_class_def ex_store_def

lemma store_value_fits: "store_value m c v = Inr v' \<Longrightarrow> fits c v'"
  by (cases m; cases "ctype c"; cases v)
     (auto simp: store_value_def fits_def split: if_splits)

lemma store_value_of_fits: "fits c v \<Longrightarrow> store_value m c v = Inr v"
  by (simp add: store_value_def)

lemma store_value_Lenient: "\<exists>v'. store_value Lenient c v = Inr v'"
  by (simp add: store_value_def)

lemma store_value_cases:
  "store_value m c v = Inl DataError \<or> (\<exists>v'. store_value m c v = Inr v')"
  by (cases m) (simp_all add: store_value_def)

lemma fold_max_lower:
  "a \<le> fold (\<lambda>v m. case v of None \<Rightarrow> m | Some i \<Rightarrow> max i m) ids (a::int)"
proof (induction ids arbitrary: a)
  case Nil
  then show ?case by simp
next
  case (Cons v ids)
  show ?case
  proof (cases v)
    case None
    with Cons.IH [of a] show ?thesis by simp
  next
    case (Some i)
    have "a \<le> max i a" by simp
    also have "\<dots> \<le> fold (\<lambda>v m. case v of None \<Rightarrow> m | Some i \<Rightarrow> max i m) ids (max i a)"
      by (rule Cons.IH)
    finally show ?thesis using Some by simp
  qed
qed

lemma fold_max_upper:
  "Some i \<in> set ids
   \<Longrightarrow> i \<le> fold (\<lambda>v m. case v of None \<Rightarrow> m | Some i \<Rightarrow> max i m) ids (a::int)"
proof (induction ids arbitrary: a)
  case Nil
  then show ?case by simp
next
  case (Cons v ids)
  show ?case
  proof (cases "v = Some i")
    case True
    have "i \<le> max i a" by simp
    also have "\<dots> \<le> fold (\<lambda>v m. case v of None \<Rightarrow> m | Some i \<Rightarrow> max i m) ids (max i a)"
      by (rule fold_max_lower)
    finally show ?thesis using True by simp
  next
    case False
    with Cons.prems have "Some i \<in> set ids" by simp
    then show ?thesis using Cons.IH by (cases v) simp_all
  qed
qed

lemma next_id_fresh: "Some (next_id ids) \<notin> set ids"
proof
  assume "Some (next_id ids) \<in> set ids"
  then have "next_id ids \<le> fold (\<lambda>v m. case v of None \<Rightarrow> m | Some i \<Rightarrow> max i m) ids 0"
    by (rule fold_max_upper)
  then show False by (simp add: next_id_def)
qed

lemma assign_id_fresh:
  "primary_key c \<Longrightarrow> assign_id c v ids = Inr i \<Longrightarrow> i \<notin> set ids \<and> i \<noteq> None"
  by (auto simp: assign_id_def unique_violation_def next_id_fresh split: if_splits)


lemma user_row_fits: "user_row m rows u = Inr r \<Longrightarrow> user_fits r"
  by (auto simp: user_row_def user_fits_def split: sum.splits if_splits
           dest: store_value_fits)

lemma deck_row_fits: "deck_row m rows d = Inr r \<Longrightarrow> deck_fits r"
  by (auto simp: deck_row_def deck_fits_def split: sum.splits if_splits
           dest: store_value_fits)

lemma card_row_fits: "card_row m rows c = Inr r \<Longrightarrow> card_fits r"
  by (auto simp: card_row_def card_fits_def split: sum.splits if_splits
           dest: store_value_fits)

lemma class_row_fits: "class_row m rows k = Inr r \<Longrightarrow> class_fits r"
  by (auto simp: class_row_def class_fits_def split: sum.splits if_splits
           dest: store_value_fits)

lemma add_user_fit: "users_fit st \<Longrightarrow> users_fit (fst (add_user m st u))"
  by (auto simp: add_user_def users_fit_def split: sum.splits dest: user_row_fits)

lemma add_deck_fit: "decks_fit st \<Longrightarrow> decks_fit (fst (add_deck m st d))"
  by (auto simp: add_deck_def decks_fit_def split: sum.splits dest: deck_row_fits)

lemma add_card_fit: "cards_fit st \<Longrightarrow> cards_fit (fst (add_card m st c))"
  by (auto simp: add_card_def cards_fit_def split: sum.splits dest: card_row_fits)

lemma add_class_fit: "classes_fit st \<Longrightarrow> classes_fit (fst (add_class m st k))"
  by (auto simp: add_class_def classes_fit_def split: sum.splits dest: class_row_fits)

lemma update_card_fit: "cards_fit st \<Longrightarrow> cards_fit (fst (update_card m st c))"
  by (auto simp: update_card_def cards_fit_def card_fits_def list_all_iff
           split: sum.splits dest: store_value_fits)

lemma user_row_id_fresh:
  assumes "user_row m rows u = Inr r"
  shows "user.id r \<notin> set (map user.id rows)"
proof -
  from assms obtain i where "assign_id User_id (user.id u) (map user.id rows) = Inr i"
    and "user.id r = i"
    by (auto simp: user_row_def split: sum.splits if_splits)
  moreover have "primary_key User_id" by (simp add: User_id_def Column_def)
  ultimately show ?thesis using assign_id_fresh by blast
qed

lemma add_user_ids:
  assumes "distinct (map user.id (user_rows st))"
  shows "distinct (map user.id (user_rows (fst (add_user m st u))))"
proof (cases "user_row m (user_rows st) u")
  case (Inl e)
  with assms show ?thesis by (simp add: add_user_def)
next
  case (Inr r)
  with assms user_row_id_fresh [OF Inr] show ?thesis by (simp add: add_user_def)
qed

subsection \<open>The example store\<close>

text \<open>
  The example store is what persisting the four objects and appending the member gives,
  starting from the empty store; the card is in the collections of its deck and of its
  owner, and the user is among the members of the class.
\<close>

lemma ex_user_added:
  "add_user Strict empty_store
     (User_init (Some ''Ann'') (Some ''Lee'') (Some ''a@x.com'') (Some ''h''))
   = (empty_store\<lparr>user_rows := [ex_user]\<rparr>, Inr ex_user)"
  by (simp add: insert_defs column_defs ex_defs)

lemma ex_deck_added:
  "add_deck Strict (empty_store\<lparr>user_rows := [ex_user]\<rparr>) (Deck_init (Some ''Spanish'') (Some ex_user))
   = (empty_store\<lparr>user_rows := [ex_user], deck_rows := [ex_deck]\<rparr>, Inr ex_deck)"
  by (simp add: insert_defs column_defs ex_defs)

lemma ex_card_added:
  "add_card Strict (empty_store\<lparr>user_rows := [ex_user], deck_rows := [ex_deck]\<rparr>)
     (Card_init (Some ''hola'') (Some ''hello'') (Some ex_deck) (Some ex_user))
   = (empty_store\<lparr>user_rows := [ex_user], deck_rows := [ex_deck], card_rows := [ex_card]\<rparr>,
      Inr ex_card)"
  by (simp add: insert_defs column_defs ex_defs)

lemma ex_class_added:
  "add_class Strict
     (empty_store\<lparr>user_rows := [ex_user], deck_rows := [ex_deck], card_rows := [ex_card]\<rparr>)
     (Class_init (Some ''Period1'') (Some ''kh'') (Some ex_user))
   = (empty_store\<lparr>user_rows := [ex_user], deck_rows := [ex_deck], card_rows := [ex_card],
        class_rows := [ex_class]\<rparr>, Inr ex_class)"
  by (simp add: insert_defs column_defs ex_defs)

lemma ex_member_added:
  "classes_append
     (empty_store\<lparr>user_rows := [ex_user], deck_rows := [ex_deck], card_rows := [ex_card],
        class_rows := [ex_class]\<rparr>) ex_class ex_user
   = (ex_store, Inr ())"
  by (simp add: classes_append_def assoc_insert_def assoc_violation_def UserClasses_def
        unique_violation_def column_defs ex_defs empty_store_def)

lemma ex_scenario:
  "ex_card \<in> set (Deck_cards ex_store ex_deck) \<and> ex_card \<in> set (User_cards ex_store ex_user)
   \<and> ex_user \<in> set (Class_classes ex_store ex_class)"
  by (simp add: Deck_cards_def User_cards_def Class_classes_def related_def ex_defs)

subsection \<open>Deck.list\_cards\<close>

text \<open>
  C1. For every deck \<open>d\<close> and every user id \<open>o\<close>, \<open>d.list_cards(o)\<close> returns exactly the
  cards of the store whose \<open>owner_id\<close> is \<open>o\<close>; the result does not depend on \<open>d\<close>, so a
  card of another deck that \<open>o\<close> owns is in it.
\<close>

theorem list_cards_by_owner_only:
  "set (list_cards st d (Some ow)) = {c \<in> set (card_rows st). card.owner_id c = Some ow}
   \<and> list_cards st d (Some ow) = list_cards st d' (Some ow)
   \<and> (c \<in> set (card_rows st) \<and> card.owner_id c = Some ow \<and> deck_id c \<noteq> deck.id d
        \<longrightarrow> c \<in> set (list_cards st d (Some ow)))"
  by (auto simp: list_cards_def)

theorem list_cards_by_owner_only_witness:
  "\<lparr>card.id = Some 2, front = Some ''uno'', back_text = Some ''one'',
      deck_id = Some 2, card.owner_id = Some 1\<rparr>
     \<in> set (card_rows (ex_store\<lparr>card_rows :=
          [ex_card,
           \<lparr>card.id = Some 2, front = Some ''uno'', back_text = Some ''one'',
             deck_id = Some 2, card.owner_id = Some 1\<rparr>,
           \<lparr>card.id = Some 3, front = Some ''dos'', back_text = Some ''two'',
             deck_id = Some 1, card.owner_id = Some 8\<rparr>]\<rparr>))
   \<and> deck_id \<lparr>card.id = Some 2, front = Some ''uno'', back_text = Some ''one'',
        deck_id = Some 2, card.owner_id = Some 1\<rparr> \<noteq> deck.id ex_deck
   \<and> list_cards
        (ex_store\<lparr>card_rows :=
          [ex_card,
           \<lparr>card.id = Some 2, front = Some ''uno'', back_text = Some ''one'',
             deck_id = Some 2, card.owner_id = Some 1\<rparr>,
           \<lparr>card.id = Some 3, front = Some ''dos'', back_text = Some ''two'',
             deck_id = Some 1, card.owner_id = Some 8\<rparr>]\<rparr>)
        ex_deck (Some 1)
      = [ex_card,
         \<lparr>card.id = Some 2, front = Some ''uno'', back_text = Some ''one'',
           deck_id = Some 2, card.owner_id = Some 1\<rparr>]"
  using list_cards_by_owner_only
    [of "ex_store\<lparr>card_rows :=
          [ex_card,
           \<lparr>card.id = Some 2, front = Some ''uno'', back_text = Some ''one'',
             deck_id = Some 2, card.owner_id = Some 1\<rparr>,
           \<lparr>card.id = Some 3, front = Some ''dos'', back_text = Some ''two'',
             deck_id = Some 1, card.owner_id = Some 8\<rparr>]\<rparr>"
        ex_deck 1 ex_deck
        "\<lparr>card.id = Some 2, front = Some ''uno'', back_text = Some ''one'',
           deck_id = Some 2, card.owner_id = Some 1\<rparr>"]
  by (simp add: list_cards_def ex_defs)

subsection \<open>Password hashing\<close>

text \<open>
  C8. Reading \<open>u.password\<close> raises AttributeError for every user; assigning it
  succeeds and stores the hash of the assigned value, as \<open>generate_password_hash\<close>
  computes it, in \<open>u.password_hash\<close>.
\<close>

theorem password_write_only:
  "password_get u = Inl (AttributeError ''password is not a readable attribute.'')
   \<and> user.password_hash (password_set gph u p) = Some (gph p)
   \<and> password_set gph u p = u\<lparr>user.password_hash := Some (gph p)\<rparr>"
  by (simp add: password_get_def password_set_def)

theorem password_write_only_witness:
  "password_get (User_init (Some ''Ann'') (Some ''Lee'') (Some ''a@x.com'') None)
     = Inl (AttributeError ''password is not a readable attribute.'')
   \<and> user.password_hash
        (password_set (\<lambda>p. ''H$'' @ rev p)
           (User_init (Some ''Ann'') (Some ''Lee'') (Some ''a@x.com'') None) ''abc'')
     = Some ''H$cba''"
  using password_write_only
    [of "User_init (Some ''Ann'') (Some ''Lee'') (Some ''a@x.com'') None"
        "\<lambda>p. ''H$'' @ rev p" "''abc''"]
  by simp



subsection \<open>Uniqueness of email and names\<close>
















subsection \<open>The association tables\<close>

text \<open>
  C4. Each of the two association tables has exactly two columns, both foreign keys,
  and neither column nor table declares a uniqueness constraint or a primary key, so
  inserting a pair that is already there succeeds and stores it once more. The tables
  are constants: no operation changes them.
\<close>

theorem association_tables_two_foreign_keys:
  "map cname (columns UserClasses) = [''user_id'', ''class_id'']
   \<and> map foreign_key (columns UserClasses) = [Some ''user.id'', Some ''class.id'']
   \<and> map cname (columns CardClasses) = [''card_id'', ''class_id'']
   \<and> map foreign_key (columns CardClasses) = [Some ''card.id'', Some ''class.id'']
   \<and> map unique (columns UserClasses @ columns CardClasses) = [False, False, False, False]
   \<and> map primary_key (columns UserClasses @ columns CardClasses) = [False, False, False, False]
   \<and> assoc_insert UserClasses rows r = Inr (rows @ [r])
   \<and> assoc_insert CardClasses rows r = Inr (rows @ [r])
   \<and> classes_append st k u
      = (st\<lparr>UserClasses_rows := UserClasses_rows st @ [(user.id u, class_rec.id k)]\<rparr>, Inr ())
   \<and> card_classes_append st k c
      = (st\<lparr>CardClasses_rows := CardClasses_rows st @ [(card.id c, class_rec.id k)]\<rparr>, Inr ())"
  by (simp add: link_defs Column_def ForeignKey_def)

theorem association_tables_two_foreign_keys_witness:
  "assoc_insert UserClasses [(Some 1, Some 1)] (Some 1, Some 1)
     = Inr [(Some 1, Some 1), (Some 1, Some 1)]
   \<and> assoc_insert CardClasses [(Some 1, Some 1)] (Some 1, Some 1)
     = Inr [(Some 1, Some 1), (Some 1, Some 1)]
   \<and> UserClasses_rows (fst (classes_append ex_store ex_class ex_user))
     = [(Some 1, Some 1), (Some 1, Some 1)]"
  using association_tables_two_foreign_keys
    [of "[(Some 1, Some 1)]" "(Some 1, Some 1)" ex_store ex_class ex_user ex_card]
  by (simp add: ex_defs)

lemma classes_append_store:
  "fst (classes_append st k u)
   = st\<lparr>UserClasses_rows := UserClasses_rows st @ [(user.id u, class_rec.id k)]\<rparr>"
  by (simp add: link_defs Column_def ForeignKey_def)

lemma card_classes_append_store:
  "fst (card_classes_append st k c)
   = st\<lparr>CardClasses_rows := CardClasses_rows st @ [(card.id c, class_rec.id k)]\<rparr>"
  by (simp add: link_defs Column_def ForeignKey_def)

lemma classes_remove_store:
  "fst (classes_remove st k u)
   = st\<lparr>UserClasses_rows := removeAll (user.id u, class_rec.id k) (UserClasses_rows st)\<rparr>"
  by (simp add: classes_remove_def)

lemma card_classes_remove_store:
  "fst (card_classes_remove st k c)
   = st\<lparr>CardClasses_rows := removeAll (card.id c, class_rec.id k) (CardClasses_rows st)\<rparr>"
  by (simp add: card_classes_remove_def)

lemmas link_store =
  classes_append_store card_classes_append_store classes_remove_store card_classes_remove_store

text \<open>
  C7. For every class, user and card: appending the user to the members of a class or
  removing them leaves the shared cards of every class unchanged, and appending a
  card to the shared cards of a class or removing it leaves the members of every class
  unchanged.
\<close>

theorem membership_and_sharing_independent:
  "CardClasses_rows (fst (classes_append st k u)) = CardClasses_rows st
   \<and> card_classes (fst (classes_append st k u)) k' = card_classes st k'
   \<and> CardClasses_rows (fst (classes_remove st k u)) = CardClasses_rows st
   \<and> card_classes (fst (classes_remove st k u)) k' = card_classes st k'
   \<and> UserClasses_rows (fst (card_classes_append st k c)) = UserClasses_rows st
   \<and> Class_classes (fst (card_classes_append st k c)) k' = Class_classes st k'
   \<and> UserClasses_rows (fst (card_classes_remove st k c)) = UserClasses_rows st
   \<and> Class_classes (fst (card_classes_remove st k c)) k' = Class_classes st k'"
  by (simp add: link_store card_classes_def Class_classes_def cong: if_cong)

theorem membership_and_sharing_independent_witness:
  "Class_classes (fst (card_classes_append ex_store ex_class ex_card)) ex_class = [ex_user]
   \<and> card_classes (fst (card_classes_append ex_store ex_class ex_card)) ex_class = [ex_card]
   \<and> Class_classes (fst (card_classes_remove
        (fst (card_classes_append ex_store ex_class ex_card)) ex_class ex_card)) ex_class
      = [ex_user]
   \<and> card_classes (fst (classes_remove
        (fst (card_classes_append ex_store ex_class ex_card)) ex_class ex_user)) ex_class
      = [ex_card]
   \<and> Class_classes (fst (classes_remove
        (fst (card_classes_append ex_store ex_class ex_card)) ex_class ex_user)) ex_class
      = []"
  using membership_and_sharing_independent
    [of "fst (card_classes_append ex_store ex_class ex_card)" ex_class ex_user ex_class ex_card]
    membership_and_sharing_independent [of ex_store ex_class ex_user ex_class ex_card]
  by (simp add: link_store card_classes_def Class_classes_def ex_defs)

subsection \<open>Cards\<close>

lemma related_mem:
  "r \<in> set (related fk (Some i) rows) \<longleftrightarrow> r \<in> set rows \<and> fk r = Some i"
  by (simp add: related_def)

lemma card_row_of_init:
  assumes "card_row m rows (Card_init f b d ow) = Inr c"
  shows "deck_id c = Option.bind d deck.id \<and> card.owner_id c = Option.bind ow user.id"
  using assms by (auto simp: card_row_def Card_init_def split: sum.splits)

lemma card_row_succeeds:
  assumes "m = Lenient \<or> (fits Card_front (front c) \<and> fits Card_back (back_text c))"
    and "card.id c = None"
  shows "\<exists>r. card_row m rows c = Inr r"
proof -
  from assms(1) have "\<exists>v. store_value m Card_front (front c) = Inr v"
    and "\<exists>v. store_value m Card_back (back_text c) = Inr v"
    using store_value_Lenient store_value_of_fits by auto
  moreover have "\<exists>i. assign_id Card_id (card.id c) (map card.id rows) = Inr i"
    using assms(2) by (simp add: assign_id_def Card_id_def Column_def)
  ultimately show ?thesis by (auto simp: card_row_def)
qed

text \<open>
  C5. A card constructed with \<open>Card(front, back, deck, owner)\<close> from a persisted deck
  and a persisted owner, once persisted, is an element of \<open>deck.cards\<close> and of
  \<open>owner.cards\<close>; and persisting it succeeds when the server truncates or both texts
  fit their columns.
\<close>

theorem new_card_in_collections:
  assumes "deck.id d = Some di" and "user.id ow = Some oi"
  shows "(\<forall>c. snd (add_card m st (Card_init f b (Some d) (Some ow))) = Inr c
           \<longrightarrow> c \<in> set (Deck_cards (fst (add_card m st (Card_init f b (Some d) (Some ow)))) d)
             \<and> c \<in> set (User_cards (fst (add_card m st (Card_init f b (Some d) (Some ow)))) ow))
       \<and> (m = Lenient \<or> (fits Card_front f \<and> fits Card_back b)
           \<longrightarrow> (\<exists>c. snd (add_card m st (Card_init f b (Some d) (Some ow))) = Inr c))"
proof (intro conjI allI impI)
  fix c
  assume ok: "snd (add_card m st (Card_init f b (Some d) (Some ow))) = Inr c"
  then have row: "card_row m (card_rows st) (Card_init f b (Some d) (Some ow)) = Inr c"
    by (simp add: add_card_def split: sum.splits)
  then have rows: "card_rows (fst (add_card m st (Card_init f b (Some d) (Some ow))))
      = card_rows st @ [c]"
    by (simp add: add_card_def)
  from card_row_of_init [OF row] assms
  have keys: "deck_id c = Some di" "card.owner_id c = Some oi" by simp_all
  show "c \<in> set (Deck_cards (fst (add_card m st (Card_init f b (Some d) (Some ow)))) d)"
    using rows keys assms by (simp add: Deck_cards_def related_mem)
  show "c \<in> set (User_cards (fst (add_card m st (Card_init f b (Some d) (Some ow)))) ow)"
    using rows keys assms by (simp add: User_cards_def related_mem)
next
  assume "m = Lenient \<or> (fits Card_front f \<and> fits Card_back b)"
  then obtain r where "card_row m (card_rows st) (Card_init f b (Some d) (Some ow)) = Inr r"
    using card_row_succeeds [of m "Card_init f b (Some d) (Some ow)" "card_rows st"]
    by (auto simp: Card_init_def)
  then show "\<exists>c. snd (add_card m st (Card_init f b (Some d) (Some ow))) = Inr c"
    by (simp add: add_card_def)
qed

theorem new_card_in_collections_witness:
  "deck.id ex_deck = Some 1 \<and> user.id ex_user = Some 1
   \<and> snd (add_card Strict (ex_store\<lparr>card_rows := []\<rparr>)
        (Card_init (Some ''hola'') (Some ''hello'') (Some ex_deck) (Some ex_user))) = Inr ex_card
   \<and> ex_card \<in> set (Deck_cards
        (fst (add_card Strict (ex_store\<lparr>card_rows := []\<rparr>)
           (Card_init (Some ''hola'') (Some ''hello'') (Some ex_deck) (Some ex_user)))) ex_deck)
   \<and> ex_card \<in> set (User_cards
        (fst (add_card Strict (ex_store\<lparr>card_rows := []\<rparr>)
           (Card_init (Some ''hola'') (Some ''hello'') (Some ex_deck) (Some ex_user)))) ex_user)"
proof -
  have d: "deck.id ex_deck = Some 1" and u: "user.id ex_user = Some 1"
    by (simp_all add: ex_defs)
  have ok: "snd (add_card Strict (ex_store\<lparr>card_rows := []\<rparr>)
        (Card_init (Some ''hola'') (Some ''hello'') (Some ex_deck) (Some ex_user))) = Inr ex_card"
    by (simp add: insert_defs column_defs ex_defs)
  from new_card_in_collections [OF d u, of Strict "ex_store\<lparr>card_rows := []\<rparr>"
      "Some ''hola''" "Some ''hello''"] ok d u
  show ?thesis by blast
qed

lemma card_fits_1200:
  "card_fits c \<longleftrightarrow>
     (case front c of None \<Rightarrow> True | Some s \<Rightarrow> length s \<le> 1200)
     \<and> (case back_text c of None \<Rightarrow> True | Some s \<Rightarrow> length s \<le> 1200)"
  by (simp add: card_fits_def fits_def Card_front_def Card_back_def Column_def)

lemma card_rows_frame:
  "card_rows (fst (add_user m st u)) = card_rows st"
  "card_rows (fst (add_deck m st d)) = card_rows st"
  "card_rows (fst (add_class m st k)) = card_rows st"
  "card_rows (fst (classes_append st k u)) = card_rows st"
  "card_rows (fst (classes_remove st k u)) = card_rows st"
  "card_rows (fst (card_classes_append st k c)) = card_rows st"
  "card_rows (fst (card_classes_remove st k c)) = card_rows st"
  by (simp_all add: add_user_def add_deck_def add_class_def classes_append_def
        classes_remove_def card_classes_append_def card_classes_remove_def split: sum.splits)

text \<open>
  C6. The front and the back of every persisted card are at most 1200 characters long:
  this holds in the empty store and is kept by persisting a constructed card, by
  assigning to \<open>front\<close> or \<open>back\<close> of a card and committing, and by every other operation.
\<close>

theorem card_texts_within_1200:
  "cards_fit empty_store
   \<and> (cards_fit st \<longrightarrow>
        (\<forall>r\<in>set (card_rows st).
           (\<forall>s. front r = Some s \<longrightarrow> length s \<le> 1200)
           \<and> (\<forall>s. back_text r = Some s \<longrightarrow> length s \<le> 1200))
        \<and> cards_fit (fst (add_card m st (Card_init f b d ow)))
        \<and> cards_fit (fst (update_card m st (c\<lparr>front := x\<rparr>)))
        \<and> cards_fit (fst (update_card m st (c\<lparr>back_text := x\<rparr>)))
        \<and> cards_fit (fst (add_user m st u)) \<and> cards_fit (fst (add_deck m st dk))
        \<and> cards_fit (fst (add_class m st k))
        \<and> cards_fit (fst (classes_append st k u)) \<and> cards_fit (fst (classes_remove st k u))
        \<and> cards_fit (fst (card_classes_append st k c))
        \<and> cards_fit (fst (card_classes_remove st k c)))"
proof (intro conjI impI)
  show "cards_fit empty_store" by (simp add: cards_fit_def empty_store_def)
next
  assume inv: "cards_fit st"
  show "\<forall>r\<in>set (card_rows st).
          (\<forall>s. front r = Some s \<longrightarrow> length s \<le> 1200)
          \<and> (\<forall>s. back_text r = Some s \<longrightarrow> length s \<le> 1200)"
    using inv by (auto simp: cards_fit_def list_all_iff card_fits_1200)
  show "cards_fit (fst (add_card m st (Card_init f b d ow)))"
    using inv by (rule add_card_fit)
  show "cards_fit (fst (update_card m st (c\<lparr>front := x\<rparr>)))"
    using inv by (rule update_card_fit)
  show "cards_fit (fst (update_card m st (c\<lparr>back_text := x\<rparr>)))"
    using inv by (rule update_card_fit)
  show "cards_fit (fst (add_user m st u))" "cards_fit (fst (add_deck m st dk))"
    "cards_fit (fst (add_class m st k))"
    "cards_fit (fst (classes_append st k u))" "cards_fit (fst (classes_remove st k u))"
    "cards_fit (fst (card_classes_append st k c))"
    "cards_fit (fst (card_classes_remove st k c))"
    using inv by (simp_all add: cards_fit_def card_rows_frame)
qed

theorem card_texts_within_1200_witness:
  "cards_fit ex_store
   \<and> add_card Strict ex_store
        (Card_init (Some (replicate 1201 CHR ''x'')) (Some ''b'') (Some ex_deck) (Some ex_user))
      = (ex_store, Inl DataError)
   \<and> map (\<lambda>c. map_option length (front c))
        (card_rows (fst (add_card Lenient ex_store
           (Card_init (Some (replicate 1201 CHR ''x'')) (Some ''b'') (Some ex_deck)
              (Some ex_user)))))
      = [Some 4, Some 1200]
   \<and> cards_fit (fst (add_card Lenient ex_store
        (Card_init (Some (replicate 1201 CHR ''x'')) (Some ''b'') (Some ex_deck) (Some ex_user))))
   \<and> map (\<lambda>c. map_option length (back_text c))
        (card_rows (fst (update_card Lenient ex_store
           (ex_card\<lparr>back_text := Some (replicate 1300 CHR ''y'')\<rparr>))))
      = [Some 1200]
   \<and> cards_fit (fst (update_card Lenient ex_store
        (ex_card\<lparr>back_text := Some (replicate 1300 CHR ''y'')\<rparr>)))"
proof -
  have inv: "cards_fit ex_store"
    by (simp add: cards_fit_def card_fits_1200 ex_defs)
  have a: "add_card Strict ex_store
        (Card_init (Some (replicate 1201 CHR ''x'')) (Some ''b'') (Some ex_deck) (Some ex_user))
      = (ex_store, Inl DataError)"
    by (simp add: insert_defs column_defs)
  have b: "map (\<lambda>c. map_option length (front c))
        (card_rows (fst (add_card Lenient ex_store
           (Card_init (Some (replicate 1201 CHR ''x'')) (Some ''b'') (Some ex_deck)
              (Some ex_user)))))
      = [Some 4, Some 1200]"
    by (simp add: insert_defs column_defs ex_defs)
  have c: "map (\<lambda>c. map_option length (back_text c))
        (card_rows (fst (update_card Lenient ex_store
           (ex_card\<lparr>back_text := Some (replicate 1300 CHR ''y'')\<rparr>))))
      = [Some 1200]"
    by (simp add: update_card_def insert_defs column_defs ex_defs)
  from card_texts_within_1200
    [where st = ex_store and m = Lenient and f = "Some (replicate 1201 CHR ''x'')"
       and b = "Some ''b''" and d = "Some ex_deck" and ow = "Some ex_user" and c = ex_card
       and x = "Some (replicate 1300 CHR ''y'')" and u = ex_user and dk = ex_deck
       and k = ex_class]
    inv a b c
  show ?thesis by simp
qed

subsection \<open>load\_user\<close>

lemma find_by_id:
  "distinct (map user.id rows) \<Longrightarrow> u \<in> set rows \<Longrightarrow> user.id u = Some n
   \<Longrightarrow> find (\<lambda>x. user.id x = Some n) rows = Some u"
proof (induction rows)
  case Nil
  then show ?case by simp
next
  case (Cons r rows)
  show ?case
  proof (cases "u = r")
    case True
    with Cons.prems show ?thesis by simp
  next
    case False
    with Cons.prems have in_rows: "u \<in> set rows" by simp
    with Cons.prems have "user.id r \<noteq> Some n" by force
    with Cons in_rows show ?thesis by simp
  qed
qed

lemma find_no_id:
  "\<forall>u\<in>set rows. user.id u \<noteq> Some n \<Longrightarrow> find (\<lambda>x. user.id x = Some n) rows = None"
  by (induction rows) auto

text \<open>
  C10. For a session-stored user id whose integer value is the \<open>id\<close> of no persisted
  user, \<open>load_user\<close> returns \<open>None\<close> and does not raise; when a user with that \<open>id\<close> is
  persisted (the primary key makes it the only one), \<open>load_user\<close> returns that user.
\<close>

theorem load_user_by_id:
  assumes "py_int user_id = Inr n"
  shows "((\<forall>u\<in>set (user_rows st). user.id u \<noteq> Some n) \<longrightarrow> load_user st user_id = Inr None)
       \<and> (distinct (map user.id (user_rows st)) \<and> u \<in> set (user_rows st) \<and> user.id u = Some n
            \<longrightarrow> load_user st user_id = Inr (Some u))"
  using assms by (simp add: load_user_def query_get_def find_by_id find_no_id)

theorem load_user_by_id_witness:
  "py_int ''1'' = Inr 1 \<and> distinct (map user.id (user_rows ex_store))
   \<and> ex_user \<in> set (user_rows ex_store) \<and> user.id ex_user = Some 1
   \<and> load_user ex_store ''1'' = Inr (Some ex_user)
   \<and> py_int '' 42 '' = Inr 42 \<and> Some 42 \<notin> set (map user.id (user_rows ex_store))
   \<and> load_user ex_store '' 42 '' = Inr None
   \<and> load_user ex_store [char_of (28 :: nat), CHR ''1''] = Inl ValueError
   \<and> load_user ex_store ''abc'' = Inl ValueError"
proof -
  have a: "py_int ''1'' = Inr 1" by code_simp
  have b: "py_int '' 42 '' = Inr 42" by code_simp
  have c: "py_int [char_of (28 :: nat), CHR ''1''] = Inl ValueError" by code_simp
  have d: "py_int ''abc'' = Inl ValueError" by code_simp
  from load_user_by_id [OF a, of ex_store ex_user] load_user_by_id [OF b, of ex_store ex_user]
    a b c d
  show ?thesis by (simp add: ex_defs load_user_def)
qed

end
